theory Spec2Isabelle
  imports Main
begin

section \<open>The document tree handed over by the XML loader\<close>

text \<open>
  \<^verbatim>\<open>reference_parser.py\<close> never looks at the bytes of a TEI file: it opens the file,
  gives it to \<^verbatim>\<open>BeautifulSoup(f, 'xml')\<close> and from then on only navigates the tree
  that comes back. The embedding starts at that tree. A node is an element (a tag with
  its name, its attribute dictionary and its children in document order), a text string,
  or a comment (a string that the text accessors skip). Strings are lists of code points
  below 256. The attribute dictionary is an association list read with \<open>map_of\<close>; the
  parser never produces two attributes of one name.
\<close>

type_synonym attrs = "(string \<times> string) list"

datatype node =
    Tag string attrs "node list"
  | NavigableString string
  | Comment string

datatype error = IndexError

subsection \<open>Python string operations used by the parser\<close>

text \<open>\<^verbatim>\<open>str.isspace\<close> on one code point below 256.\<close>

definition isspace :: "char \<Rightarrow> bool" where
  "isspace c \<longleftrightarrow>
     c \<in> set [CHR 0x09, CHR 0x0A, CHR 0x0B, CHR 0x0C, CHR 0x0D,
              CHR 0x1C, CHR 0x1D, CHR 0x1E, CHR 0x1F, CHR 0x20, CHR 0x85, CHR 0xA0]"

text \<open>\<^verbatim>\<open>s.strip()\<close>: whitespace removed at both ends, the inside untouched.\<close>

definition strip :: "string \<Rightarrow> string" where
  "strip s = rev (dropWhile isspace (rev (dropWhile isspace s)))"

text \<open>\<^verbatim>\<open>sep.join(xs)\<close>.\<close>

fun join :: "string \<Rightarrow> string list \<Rightarrow> string" where
  "join sep [] = []"
| "join sep [x] = x"
| "join sep (x # y # ys) = x @ sep @ join sep (y # ys)"

text \<open>\<^verbatim>\<open>s.split(c)\<close> for a separator of one character: the pieces between separators,
  empty pieces kept.\<close>

fun split :: "char \<Rightarrow> string \<Rightarrow> string list" where
  "split sep [] = [[]]"
| "split sep (c # cs) =
     (if c = sep then [] # split sep cs
      else (case split sep cs of
              [] \<Rightarrow> [[c]]
            | w # ws \<Rightarrow> (c # w) # ws))"

text \<open>\<^verbatim>\<open>xs[0]\<close> raises \<^verbatim>\<open>IndexError\<close> on an empty list.\<close>

definition index0 :: "'a list \<Rightarrow> error + 'a" where
  "index0 xs = (case xs of [] \<Rightarrow> Inl IndexError | x # _ \<Rightarrow> Inr x)"

text \<open>\<^verbatim>\<open>s.startswith(p)\<close>.\<close>

definition startswith :: "string \<Rightarrow> string \<Rightarrow> bool" where
  "startswith s p \<longleftrightarrow> take (length p) s = p"

subsection \<open>Tree navigation\<close>

text \<open>\<^verbatim>\<open>tag.get(key)\<close> and \<^verbatim>\<open>tag.get(key, default)\<close>; a string or a comment has no
  attributes.\<close>

fun get :: "node \<Rightarrow> string \<Rightarrow> string option" where
  "get (Tag n a cs) k = map_of a k"
| "get (NavigableString s) k = None"
| "get (Comment s) k = None"

definition get_default :: "node \<Rightarrow> string \<Rightarrow> string \<Rightarrow> string" where
  "get_default e k d = (case get e k of None \<Rightarrow> d | Some v \<Rightarrow> v)"

fun children :: "node \<Rightarrow> node list" where
  "children (Tag n a cs) = cs"
| "children (NavigableString s) = []"
| "children (Comment s) = []"

text \<open>\<^verbatim>\<open>tag.descendants\<close>: every node below the tag, in document order (a node before
  its own children, the tag itself not included).\<close>

fun descendants :: "node \<Rightarrow> node list"
  and descendants_list :: "node list \<Rightarrow> node list" where
  "descendants (Tag n a cs) = descendants_list cs"
| "descendants (NavigableString s) = []"
| "descendants (Comment s) = []"
| "descendants_list [] = []"
| "descendants_list (c # cs) = c # descendants c @ descendants_list cs"

text \<open>The test behind \<^verbatim>\<open>find(name, attrs)\<close>: an element of that name on which every
  required attribute is present with exactly the required value. Names and values are
  compared as strings, case-sensitively, in the form the loader reports them (the
  identifier attribute of an entry under the key \<^verbatim>\<open>xml:id\<close>).\<close>

fun matches :: "string \<Rightarrow> attrs \<Rightarrow> node \<Rightarrow> bool" where
  "matches name req (Tag n a cs) \<longleftrightarrow>
     n = name \<and> list_all (\<lambda>(k, v). map_of a k = Some v) req"
| "matches name req (NavigableString s) \<longleftrightarrow> False"
| "matches name req (Comment s) \<longleftrightarrow> False"

text \<open>\<^verbatim>\<open>tag.find_all(name, attrs)\<close> collects the matching descendants;
  \<^verbatim>\<open>tag.find_all(name, recursive=False)\<close> only looks at the children.\<close>

definition find_all :: "string \<Rightarrow> attrs \<Rightarrow> node \<Rightarrow> node list" where
  "find_all name req e = filter (matches name req) (descendants e)"

definition find_all_children :: "string \<Rightarrow> attrs \<Rightarrow> node \<Rightarrow> node list" where
  "find_all_children name req e = filter (matches name req) (children e)"

text \<open>\<^verbatim>\<open>tag.find(name, attrs)\<close> walks the descendants and stops at the first match;
  \<^verbatim>\<open>None\<close> when there is none.\<close>

fun find_in :: "string \<Rightarrow> attrs \<Rightarrow> node list \<Rightarrow> node option" where
  "find_in name req [] = None"
| "find_in name req (d # ds) =
     (if matches name req d then Some d else find_in name req ds)"

definition find :: "string \<Rightarrow> attrs \<Rightarrow> node \<Rightarrow> node option" where
  "find name req e = find_in name req (descendants e)"

text \<open>\<^verbatim>\<open>tag.get_text(strip=...)\<close> joins, with no separator, the text strings below the
  tag. Comments are skipped. With \<^verbatim>\<open>strip=True\<close> each string is stripped on its own
  and dropped when nothing is left. \<^verbatim>\<open>tag.text\<close> is \<^verbatim>\<open>get_text()\<close> without stripping.\<close>

fun all_strings :: "bool \<Rightarrow> node list \<Rightarrow> string list" where
  "all_strings strp [] = []"
| "all_strings strp (Tag n a cs # ds) = all_strings strp ds"
| "all_strings strp (Comment s # ds) = all_strings strp ds"
| "all_strings strp (NavigableString s # ds) =
     (if strp then
        (if strip s = [] then all_strings strp ds
         else strip s # all_strings strp ds)
      else s # all_strings strp ds)"

definition get_text :: "bool \<Rightarrow> node \<Rightarrow> string" where
  "get_text strp e = concat (all_strings strp (descendants e))"

definition text_of :: "node \<Rightarrow> string" where
  "text_of e = get_text False e"

section \<open>The parser\<close>

subsection \<open>Records\<close>

text \<open>
  The dictionaries the parser builds have fixed keys, so they are records. The keys
  shared by the main paper and a reference are the fields of \<open>paper\<close>; each of the two
  extends it with its own keys. A value that may be \<^verbatim>\<open>None\<close> is an option.
\<close>

record person =
  forename :: string
  surname :: string
  full_name :: string

record paper =
  title :: string
  authors :: "person list"
  year :: "string option"
  doi :: "string option"
  arxiv :: "string option"

record main_paper_rec = paper +
  abstract :: "string option"

record reference_rec = paper +
  venue :: "string option"
  pages :: "string option"
  volume :: "string option"
  grobid_id :: string
  paper_id :: "string option"
  citation_count :: "int option"
  full_abstract :: "string option"

record result =
  main_paper :: main_paper_rec
  references :: "reference_rec list"

subsection \<open>\<^verbatim>\<open>parse_author\<close>\<close>

text \<open>The two local variables of \<^verbatim>\<open>parse_author\<close>, computed from the \<^verbatim>\<open>persName\<close>
  element: the text of all its \<^verbatim>\<open>forename\<close> descendants joined by one space, and the
  text of its first \<^verbatim>\<open>surname\<close> descendant.\<close>

definition forename_text :: "node \<Rightarrow> string" where
  "forename_text persName =
     (let forenames = find_all ''forename'' [] persName
      in if forenames \<noteq> [] then join '' '' (map text_of forenames) else [])"

definition surname_text :: "node \<Rightarrow> string" where
  "surname_text persName =
     (case find ''surname'' [] persName of
        Some surname_elem \<Rightarrow> text_of surname_elem
      | None \<Rightarrow> [])"

definition parse_author :: "node \<Rightarrow> person option" where
  "parse_author author_elem =
     (case find ''persName'' [] author_elem of
        None \<Rightarrow> None
      | Some persName \<Rightarrow>
          if forename_text persName = [] \<and> surname_text persName = [] then None
          else Some \<lparr>forename = forename_text persName,
                     surname = surname_text persName,
                     full_name = strip (forename_text persName @ '' '' @ surname_text persName)\<rparr>)"

text \<open>The loop that both author lists are built with: each author element is parsed
  and appended to the list when a person came back.\<close>

fun authors_loop :: "node list \<Rightarrow> person list \<Rightarrow> person list" where
  "authors_loop [] acc = acc"
| "authors_loop (author_elem # rest) acc =
     (case parse_author author_elem of
        Some author \<Rightarrow> authors_loop rest (acc @ [author])
      | None \<Rightarrow> authors_loop rest acc)"

subsection \<open>The main paper\<close>

definition main_title :: "node \<Rightarrow> string" where
  "main_title soup =
     (case find ''title'' [(''level'', ''a''), (''type'', ''main'')] soup of
        Some title_elem \<Rightarrow> strip (text_of title_elem)
      | None \<Rightarrow> ''Unknown'')"

definition main_authors :: "node \<Rightarrow> person list" where
  "main_authors soup =
     (case find ''sourceDesc'' [] soup of
        Some source_desc \<Rightarrow> authors_loop (find_all_children ''author'' [] source_desc) []
      | None \<Rightarrow> [])"

definition main_year :: "node \<Rightarrow> error + string option" where
  "main_year soup =
     (case find ''date'' [(''type'', ''published'')] soup of
        Some date_elem \<Rightarrow>
          (case index0 (split CHR ''-'' (get_default date_elem ''when'' [])) of
             Inl e \<Rightarrow> Inl e
           | Inr y \<Rightarrow> Inr (Some y))
      | None \<Rightarrow> Inr None)"

text \<open>An identifier: the text of the first \<^verbatim>\<open>idno\<close> element of the given type below
  the scope. The parser reads it four times, for \<^verbatim>\<open>arXiv\<close> and \<^verbatim>\<open>DOI\<close>, with the whole
  document and with a reference entry as the scope.\<close>

definition idno :: "string \<Rightarrow> node \<Rightarrow> string option" where
  "idno scheme scope =
     (case find ''idno'' [(''type'', scheme)] scope of
        Some idno_elem \<Rightarrow> Some (text_of idno_elem)
      | None \<Rightarrow> None)"

definition main_abstract :: "node \<Rightarrow> string option" where
  "main_abstract soup =
     (case find ''abstract'' [] soup of
        Some abstract_elem \<Rightarrow> Some (get_text True abstract_elem)
      | None \<Rightarrow> None)"

definition parse_main_paper :: "node \<Rightarrow> error + main_paper_rec" where
  "parse_main_paper soup =
     (case main_year soup of
        Inl e \<Rightarrow> Inl e
      | Inr y \<Rightarrow>
          Inr \<lparr>title = main_title soup,
               authors = main_authors soup,
               year = y,
               doi = idno ''DOI'' soup,
               arxiv = idno ''arXiv'' soup,
               abstract = main_abstract soup\<rparr>)"

subsection \<open>One reference entry\<close>

definition ref_title :: "node \<Rightarrow> string" where
  "ref_title biblStruct =
     (let title_elem = find ''title'' [(''level'', ''a'')] biblStruct;
          title_elem = (if title_elem = None
                        then find ''title'' [(''level'', ''m'')] biblStruct
                        else title_elem)
      in case title_elem of
           Some t \<Rightarrow> strip (text_of t)
         | None \<Rightarrow> ''No title'')"

definition ref_year :: "node \<Rightarrow> error + string option" where
  "ref_year biblStruct =
     (case find ''date'' [(''type'', ''published'')] biblStruct of
        Some date_elem \<Rightarrow>
          (let when = get_default date_elem ''when'' []
           in if when \<noteq> [] then
                (case index0 (split CHR ''-'' when) of
                   Inl e \<Rightarrow> Inl e
                 | Inr y \<Rightarrow> Inr (Some y))
              else Inr None)
      | None \<Rightarrow> Inr None)"

definition ref_venue :: "node \<Rightarrow> string option" where
  "ref_venue biblStruct =
     (case find ''monogr'' [] biblStruct of
        Some monogr \<Rightarrow>
          (case find ''title'' [] monogr of
             Some venue_elem \<Rightarrow> Some (strip (text_of venue_elem))
           | None \<Rightarrow> None)
      | None \<Rightarrow> None)"

definition ref_pages :: "node \<Rightarrow> string option" where
  "ref_pages biblStruct =
     (case find ''biblScope'' [(''unit'', ''page'')] biblStruct of
        Some page_elem \<Rightarrow>
          (let from_page = get_default page_elem ''from'' [];
               to_page = get_default page_elem ''to'' []
           in if from_page \<noteq> [] \<and> to_page \<noteq> [] then Some (from_page @ ''-'' @ to_page)
              else if from_page \<noteq> [] then Some from_page
              else None)
      | None \<Rightarrow> None)"

definition ref_volume :: "node \<Rightarrow> string option" where
  "ref_volume biblStruct =
     (case find ''biblScope'' [(''unit'', ''volume'')] biblStruct of
        Some volume_elem \<Rightarrow> Some (strip (text_of volume_elem))
      | None \<Rightarrow> None)"

text \<open>The body of the reference loop after its guard: the record built from one
  accepted \<^verbatim>\<open>biblStruct\<close>, whose identifier has been read already.\<close>

definition parse_reference :: "node \<Rightarrow> string \<Rightarrow> error + reference_rec" where
  "parse_reference biblStruct gid =
     (case ref_year biblStruct of
        Inl e \<Rightarrow> Inl e
      | Inr y \<Rightarrow>
          Inr \<lparr>title = ref_title biblStruct,
               authors = authors_loop (find_all ''author'' [] biblStruct) [],
               year = y,
               doi = idno ''DOI'' biblStruct,
               arxiv = idno ''arXiv'' biblStruct,
               venue = ref_venue biblStruct,
               pages = ref_pages biblStruct,
               volume = ref_volume biblStruct,
               grobid_id = gid,
               paper_id = None,
               citation_count = None,
               full_abstract = None\<rparr>)"

subsection \<open>The reference loop and \<^verbatim>\<open>parse_grobid_xml\<close>\<close>

text \<open>The loop over \<^verbatim>\<open>soup.find_all('biblStruct')\<close>: an entry whose \<^verbatim>\<open>xml:id\<close> does not
  start with \<^verbatim>\<open>b\<close> is skipped, any other is parsed and appended.\<close>

fun references_loop :: "node list \<Rightarrow> reference_rec list \<Rightarrow> error + reference_rec list" where
  "references_loop [] refs = Inr refs"
| "references_loop (biblStruct # rest) refs =
     (let gid = get_default biblStruct ''xml:id'' []
      in if \<not> startswith gid ''b'' then references_loop rest refs
         else (case parse_reference biblStruct gid of
                 Inl e \<Rightarrow> Inl e
               | Inr r \<Rightarrow> references_loop rest (refs @ [r])))"

text \<open>\<^verbatim>\<open>parse_grobid_xml\<close>, from the point where the document tree exists. Opening the
  file and building the tree are the loader's work; the parser has no error handling of
  its own around them, and nothing of it runs when they fail.\<close>

definition parse_grobid_xml :: "node \<Rightarrow> error + result" where
  "parse_grobid_xml soup =
     (case parse_main_paper soup of
        Inl e \<Rightarrow> Inl e
      | Inr mp \<Rightarrow>
          (case references_loop (find_all ''biblStruct'' [] soup) [] of
             Inl e \<Rightarrow> Inl e
           | Inr refs \<Rightarrow> Inr \<lparr>main_paper = mp, references = refs\<rparr>))"


section \<open>Notions used to state the properties\<close>

text \<open>The guard of the reference loop, as a predicate on the entry.\<close>

definition accepted :: "node \<Rightarrow> bool" where
  "accepted biblStruct \<longleftrightarrow> startswith (get_default biblStruct ''xml:id'' []) ''b''"


text \<open>The specification's identifier convention, in its own words: a lowercase \<open>b\<close>
  followed by digits.\<close>

definition spec_b_digits :: "string \<Rightarrow> bool" where
  "spec_b_digits s \<longleftrightarrow>
     (case s of
        [] \<Rightarrow> False
      | c # ds \<Rightarrow> c = CHR ''b'' \<and> ds \<noteq> [] \<and> list_all (\<lambda>d. d \<in> set ''0123456789'') ds)"

text \<open>The specification's whitespace normalisation, in its own words: runs of
  whitespace collapsed to a single space, leading and trailing whitespace stripped.\<close>

fun spec_collapse :: "string \<Rightarrow> string" where
  "spec_collapse [] = []"
| "spec_collapse [c] = [if isspace c then CHR '' '' else c]"
| "spec_collapse (c # d # cs) =
     (if isspace c \<and> isspace d then spec_collapse (d # cs)
      else (if isspace c then CHR '' '' else c) # spec_collapse (d # cs))"

definition spec_normalize_whitespace :: "string \<Rightarrow> string" where
  "spec_normalize_whitespace s = strip (spec_collapse s)"

section \<open>Sample documents\<close>

text \<open>A document in the shape the conversion service produces: a header with title,
  authors, date, identifiers and abstract, and a bibliography of three reference entries
  and one entry of another kind.\<close>

definition sample_persName :: node where
  "sample_persName =
     Tag ''persName'' []
       [Tag ''forename'' [(''type'', ''first'')] [NavigableString ''Ada''],
        Tag ''forename'' [(''type'', ''middle'')] [NavigableString ''B''],
        Tag ''surname'' [] [NavigableString ''Lovelace'']]"

definition sample_author :: node where
  "sample_author = Tag ''author'' [] [sample_persName]"

definition sample_email_author :: node where
  "sample_email_author =
     Tag ''author'' [] [Tag ''email'' [] [NavigableString ''ada@example.org'']]"

definition sample_abstract :: node where
  "sample_abstract =
     Tag ''abstract'' []
       [Tag ''p'' [] [NavigableString ''We study  nets. ''],
        Comment ''draft'',
        Tag ''p'' [] [NavigableString ''They work.'']]"

definition sample_header :: node where
  "sample_header =
     Tag ''teiHeader'' []
       [Tag ''fileDesc'' []
          [Tag ''titleStmt'' []
             [Tag ''title'' [(''level'', ''a''), (''type'', ''main'')]
                [NavigableString '' Deep nets '']],
           Tag ''sourceDesc'' []
             [sample_author,
              sample_email_author,
              Tag ''biblStruct'' []
                [Tag ''date'' [(''type'', ''published''), (''when'', ''2020-05-01'')] [],
                 Tag ''idno'' [(''type'', ''doi'')] [NavigableString ''lower-case''],
                 Tag ''idno'' [(''type'', ''DOI'')] [NavigableString ''10.1/main''],
                 Tag ''idno'' [(''type'', ''DOI'')] [NavigableString ''10.1/other''],
                 Tag ''idno'' [(''type'', ''arXiv'')] [NavigableString ''2005.00001'']]]],
        Tag ''profileDesc'' [] [sample_abstract]]"

definition sample_page_both :: node where
  "sample_page_both =
     Tag ''biblScope'' [(''unit'', ''page''), (''from'', ''100''), (''to'', ''110'')] []"

definition sample_page_from :: node where
  "sample_page_from = Tag ''biblScope'' [(''unit'', ''page''), (''from'', ''7'')] []"

definition sample_page_to :: node where
  "sample_page_to = Tag ''biblScope'' [(''unit'', ''page''), (''to'', ''9'')] []"

definition sample_b0 :: node where
  "sample_b0 =
     Tag ''biblStruct'' [(''xml:id'', ''b0'')]
       [Tag ''analytic'' []
          [Tag ''title'' [(''level'', ''a''), (''type'', ''main'')]
             [NavigableString ''On numbers''],
           Tag ''author'' []
             [Tag ''persName'' []
                [Tag ''forename'' [] [NavigableString ''Alan''],
                 Tag ''surname'' [] [NavigableString ''Turing'']]],
           Tag ''idno'' [(''type'', ''arXiv'')] [NavigableString ''1234.5678'']],
        Tag ''monogr'' []
          [Tag ''title'' [(''level'', ''j'')] [NavigableString ''Proc. LMS''],
           Tag ''imprint'' []
             [Tag ''biblScope'' [(''unit'', ''volume'')] [NavigableString ''42''],
              sample_page_both,
              Tag ''date'' [(''type'', ''published''), (''when'', ''1936-11'')] []]]]"

definition sample_fig :: node where
  "sample_fig = Tag ''biblStruct'' [(''xml:id'', ''fig_1'')] []"

definition sample_b1 :: node where
  "sample_b1 =
     Tag ''biblStruct'' [(''xml:id'', ''b1'')]
       [Tag ''monogr'' []
          [Tag ''title'' [(''level'', ''m'')] [NavigableString ''A book''],
           Tag ''imprint'' []
             [sample_page_from,
              Tag ''date'' [(''type'', ''published'')] []]]]"

definition sample_b2 :: node where
  "sample_b2 =
     Tag ''biblStruct'' [(''xml:id'', ''b2'')]
       [Tag ''monogr'' [] [Tag ''imprint'' [] [sample_page_to]]]"

definition sample_doc :: node where
  "sample_doc =
     Tag ''[document]'' []
       [Tag ''TEI'' []
          [sample_header,
           Tag ''text'' []
             [Tag ''back'' []
                [Tag ''listBibl'' [] [sample_b0, sample_fig, sample_b1, sample_b2]]]]]"

definition sample_ref0 :: reference_rec where
  "sample_ref0 =
     \<lparr>title = ''On numbers'',
      authors = [\<lparr>forename = ''Alan'', surname = ''Turing'', full_name = ''Alan Turing''\<rparr>],
      year = Some ''1936'', doi = None, arxiv = Some ''1234.5678'',
      venue = Some ''Proc. LMS'', pages = Some ''100-110'', volume = Some ''42'',
      grobid_id = ''b0'', paper_id = None, citation_count = None, full_abstract = None\<rparr>"

definition sample_ref1 :: reference_rec where
  "sample_ref1 =
     \<lparr>title = ''A book'', authors = [], year = None, doi = None, arxiv = None,
      venue = Some ''A book'', pages = Some ''7'', volume = None,
      grobid_id = ''b1'', paper_id = None, citation_count = None, full_abstract = None\<rparr>"

definition sample_ref2 :: reference_rec where
  "sample_ref2 =
     \<lparr>title = ''No title'', authors = [], year = None, doi = None, arxiv = None,
      venue = None, pages = None, volume = None,
      grobid_id = ''b2'', paper_id = None, citation_count = None, full_abstract = None\<rparr>"

definition sample_result :: result where
  "sample_result =
     \<lparr>main_paper =
        \<lparr>title = ''Deep nets'',
         authors = [\<lparr>forename = ''Ada B'', surname = ''Lovelace'',
                     full_name = ''Ada B Lovelace''\<rparr>],
         year = Some ''2020'', doi = Some ''10.1/main'', arxiv = Some ''2005.00001'',
         abstract = Some ''We study  nets.They work.''\<rparr>,
      references = [sample_ref0, sample_ref1, sample_ref2]\<rparr>"

text \<open>A document without any bibliographic structure.\<close>

definition empty_doc :: node where
  "empty_doc = Tag ''[document]'' [] [Tag ''TEI'' [] [Tag ''teiHeader'' [] []]]"

text \<open>A document whose only entry has an identifier that starts with \<open>b\<close> and has no
  digit.\<close>

definition bibl_doc :: node where
  "bibl_doc = Tag ''[document]'' [] [Tag ''biblStruct'' [(''xml:id'', ''bibl'')] []]"

text \<open>A document whose header date and whose reference date both lack the \<^verbatim>\<open>when\<close>
  attribute.\<close>

definition undated_doc :: node where
  "undated_doc =
     Tag ''[document]'' []
       [Tag ''teiHeader'' [] [Tag ''date'' [(''type'', ''published'')] []],
        Tag ''biblStruct'' [(''xml:id'', ''b0'')]
          [Tag ''date'' [(''type'', ''published'')] []]]"

text \<open>An author whose only name part is a forename of one space.\<close>

definition blank_persName :: node where
  "blank_persName = Tag ''persName'' [] [Tag ''forename'' [] [NavigableString '' '']]"

definition blank_author :: node where
  "blank_author = Tag ''author'' [] [blank_persName]"

text \<open>A document whose main title element holds one space.\<close>

definition blank_title_doc :: node where
  "blank_title_doc =
     Tag ''[document]'' []
       [Tag ''title'' [(''level'', ''a''), (''type'', ''main'')] [NavigableString '' '']]"

text \<open>A document whose abstract is one text string with two spaces between its words.\<close>

definition spaced_abstract :: node where
  "spaced_abstract = Tag ''abstract'' [] [NavigableString ''Deep  nets'']"

definition spaced_abstract_doc :: node where
  "spaced_abstract_doc = Tag ''[document]'' [] [spaced_abstract]"




section \<open>Facts about the library operations\<close>

text \<open>\<open>find\<close> returns the first match in document order.\<close>

lemma find_in_filter:
  "find_in name req ds =
     (case filter (matches name req) ds of [] \<Rightarrow> None | x # _ \<Rightarrow> Some x)"
  by (induction ds) simp_all

lemma find_first:
  "find name req e = (case find_all name req e of [] \<Rightarrow> None | x # _ \<Rightarrow> Some x)"
  by (simp add: find_def find_all_def find_in_filter)

text \<open>The first piece of a split is what stands before the first separator, and there
  always is a first piece.\<close>

lemma split_takeWhile: "\<exists>ws. split sep s = takeWhile (\<lambda>c. c \<noteq> sep) s # ws"
  by (induction s) auto

lemma index0_split: "index0 (split sep s) = Inr (takeWhile (\<lambda>c. c \<noteq> sep) s)"
  using split_takeWhile [of sep s] by (auto simp: index0_def)

text \<open>Stripped extraction is plain extraction with every string stripped and the empty
  ones dropped.\<close>

lemma all_strings_strip:
  "all_strings True ds = filter (\<lambda>s. s \<noteq> []) (map strip (all_strings False ds))"
proof (induction ds)
  case Nil
  show ?case by simp
next
  case (Cons d ds)
  then show ?case by (cases d) simp_all
qed

lemma forename_text_join: "forename_text p = join '' '' (map text_of (find_all ''forename'' [] p))"
  by (simp add: forename_text_def Let_def)

section \<open>Facts about the parser\<close>

lemma authors_loop_eq: "authors_loop es acc = acc @ List.map_filter parse_author es"
  by (induction es arbitrary: acc) (simp_all add: List.map_filter_simps split: option.splits)

lemma main_year_eq:
  "main_year soup =
     Inr (case find ''date'' [(''type'', ''published'')] soup of
            Some d \<Rightarrow> Some (takeWhile (\<lambda>c. c \<noteq> CHR ''-'') (get_default d ''when'' []))
          | None \<Rightarrow> None)"
  by (simp add: main_year_def index0_split split: option.splits)

lemma ref_year_eq:
  "ref_year b =
     Inr (case find ''date'' [(''type'', ''published'')] b of
            Some d \<Rightarrow>
              (if get_default d ''when'' [] \<noteq> []
               then Some (takeWhile (\<lambda>c. c \<noteq> CHR ''-'') (get_default d ''when'' []))
               else None)
          | None \<Rightarrow> None)"
  by (simp add: ref_year_def index0_split Let_def split: option.splits)

lemma parse_main_paper_total: "\<exists>mp. parse_main_paper soup = Inr mp"
  by (simp add: parse_main_paper_def main_year_eq)

lemma parse_reference_total: "\<exists>r. parse_reference b gid = Inr r"
  by (simp add: parse_reference_def ref_year_eq)

lemma references_loop_eq:
  "\<exists>rs. references_loop bs refs = Inr (refs @ rs) \<and>
        list_all2 (\<lambda>b r. parse_reference b (get_default b ''xml:id'' []) = Inr r)
          (filter accepted bs) rs"
proof (induction bs arbitrary: refs)
  case Nil
  then show ?case by simp
next
  case (Cons b bs)
  show ?case
  proof (cases "accepted b")
    case False
    then have "\<not> startswith (get_default b ''xml:id'' []) ''b''"
      by (simp add: accepted_def)
    with False Cons [of refs] show ?thesis by simp
  next
    case True
    then have sw: "startswith (get_default b ''xml:id'' []) ''b''"
      by (simp add: accepted_def)
    obtain r where r: "parse_reference b (get_default b ''xml:id'' []) = Inr r"
      using parse_reference_total by blast
    from Cons [of "refs @ [r]"] obtain rs where
      "references_loop bs (refs @ [r]) = Inr (refs @ [r] @ rs)"
      "list_all2 (\<lambda>b r. parse_reference b (get_default b ''xml:id'' []) = Inr r)
         (filter accepted bs) rs"
      by auto
    with True sw r show ?thesis
      by (intro exI [of _ "r # rs"]) simp
  qed
qed

lemma parse_grobid_xml_total: "\<exists>r. parse_grobid_xml soup = Inr r"
proof -
  obtain mp where "parse_main_paper soup = Inr mp"
    using parse_main_paper_total by blast
  moreover obtain rs where "references_loop (find_all ''biblStruct'' [] soup) [] = Inr rs"
    using references_loop_eq [of "find_all ''biblStruct'' [] soup" "[]"] by auto
  ultimately show ?thesis by (simp add: parse_grobid_xml_def)
qed

lemma parse_grobid_xml_main:
  assumes "parse_grobid_xml soup = Inr r"
  shows "parse_main_paper soup = Inr (main_paper r)"
  using assms by (auto simp: parse_grobid_xml_def split: sum.splits)

lemma parse_grobid_xml_references:
  assumes "parse_grobid_xml soup = Inr r"
  shows "list_all2 (\<lambda>b ref. parse_reference b (get_default b ''xml:id'' []) = Inr ref)
           (filter accepted (find_all ''biblStruct'' [] soup)) (references r)"
proof -
  from assms have "references_loop (find_all ''biblStruct'' [] soup) [] = Inr (references r)"
    by (auto simp: parse_grobid_xml_def split: sum.splits)
  with references_loop_eq [of "find_all ''biblStruct'' [] soup" "[]"] show ?thesis
    by auto
qed

text \<open>Every output reference satisfies what its record satisfies by construction.\<close>

lemma references_field:
  assumes "parse_grobid_xml soup = Inr r"
    and "\<And>b gid ref. parse_reference b gid = Inr ref \<Longrightarrow> P b ref"
  shows "list_all2 P (filter accepted (find_all ''biblStruct'' [] soup)) (references r)"
  using parse_grobid_xml_references [OF assms(1)] assms(2)
  by (rule list_all2_mono)

text \<open>The fields of the two records, read off the functions that build them.\<close>

lemma main_paper_fields:
  assumes "parse_main_paper soup = Inr mp"
  shows "title mp = main_title soup"
    and "authors mp = main_authors soup"
    and "main_year soup = Inr (year mp)"
    and "doi mp = idno ''DOI'' soup"
    and "arxiv mp = idno ''arXiv'' soup"
    and "abstract mp = main_abstract soup"
  using assms by (auto simp: parse_main_paper_def split: sum.splits)

lemma reference_fields:
  assumes "parse_reference b gid = Inr ref"
  shows "title ref = ref_title b"
    and "authors ref = authors_loop (find_all ''author'' [] b) []"
    and "ref_year b = Inr (year ref)"
    and "doi ref = idno ''DOI'' b"
    and "arxiv ref = idno ''arXiv'' b"
    and "venue ref = ref_venue b"
    and "pages ref = ref_pages b"
    and "volume ref = ref_volume b"
    and "grobid_id ref = gid"
  using assms by (auto simp: parse_reference_def split: sum.splits)


lemma map_filter_drop:
  assumes "f a = None"
  shows "List.map_filter f xs = List.map_filter f (filter (\<lambda>x. x \<noteq> a) xs)"
  using assms by (induction xs) (auto simp: List.map_filter_simps split: option.splits)

section \<open>The sample documents, evaluated\<close>

lemma sample_doc_parsed: "parse_grobid_xml sample_doc = Inr sample_result"
  by code_simp

lemma empty_doc_no_biblStruct: "find_all ''biblStruct'' [] empty_doc = []"
  by code_simp

lemma sample_email_author_persName: "find ''persName'' [] sample_email_author = None"
  by code_simp

lemma sample_b0_page: "find ''biblScope'' [(''unit'', ''page'')] sample_b0 = Some sample_page_both"
  by code_simp

lemma sample_b1_page: "find ''biblScope'' [(''unit'', ''page'')] sample_b1 = Some sample_page_from"
  by code_simp

lemma sample_b2_page: "find ''biblScope'' [(''unit'', ''page'')] sample_b2 = Some sample_page_to"
  by code_simp

lemma sample_b0_parsed: "parse_reference sample_b0 ''b0'' = Inr sample_ref0"
  by code_simp

lemma sample_b1_parsed: "parse_reference sample_b1 ''b1'' = Inr sample_ref1"
  by code_simp

lemma sample_b2_parsed: "parse_reference sample_b2 ''b2'' = Inr sample_ref2"
  by code_simp

section \<open>The claims\<close>

text \<open>
  C2, as the specification states it: an entry is in the output if and only if its
  identifier is a lowercase \<open>b\<close> followed by digits. The parser accepts the identifier
  \<open>bibl\<close>, which has no digit.
\<close>

theorem C2_bibl_accepted:
  "parse_grobid_xml bibl_doc =
     Inr \<lparr>main_paper = \<lparr>title = ''Unknown'', authors = [], year = None, doi = None,
                          arxiv = None, abstract = None\<rparr>,
          references = [\<lparr>title = ''No title'', authors = [], year = None, doi = None,
                          arxiv = None, venue = None, pages = None, volume = None,
                          grobid_id = ''bibl'', paper_id = None, citation_count = None,
                          full_abstract = None\<rparr>]\<rparr>
   \<and> \<not> spec_b_digits ''bibl''"
  by code_simp

text \<open>
  C2, amended: the identifiers of the output references are, in order, the \<^verbatim>\<open>xml:id\<close>
  values (the empty string when the attribute is missing) of the \<^verbatim>\<open>biblStruct\<close> elements
  of the document that start with a lowercase \<open>b\<close>: an entry is in the output if and only
  if its identifier starts with \<open>b\<close>.
\<close>

theorem C2_accepted_iff_starts_with_b:
  assumes "parse_grobid_xml soup = Inr r"
  shows "map grobid_id (references r) =
           filter (\<lambda>gid. startswith gid ''b'')
             (map (\<lambda>b. get_default b ''xml:id'' []) (find_all ''biblStruct'' [] soup))"
proof -
  have "list_all2 (\<lambda>b ref. grobid_id ref = get_default b ''xml:id'' [])
          (filter accepted (find_all ''biblStruct'' [] soup)) (references r)"
    using parse_grobid_xml_references [OF assms]
    by (rule list_all2_mono) (auto simp: parse_reference_def split: sum.splits)
  then have "map grobid_id (references r) =
               map (\<lambda>b. get_default b ''xml:id'' [])
                 (filter accepted (find_all ''biblStruct'' [] soup))"
    by (induction rule: list_all2_induct) simp_all
  also have "\<dots> = filter (\<lambda>gid. startswith gid ''b'')
                     (map (\<lambda>b. get_default b ''xml:id'' []) (find_all ''biblStruct'' [] soup))"
    by (simp add: filter_map comp_def accepted_def [abs_def])
  finally show ?thesis .
qed

theorem C2_accepted_iff_starts_with_b_witness:
  "parse_grobid_xml sample_doc = Inr sample_result \<and>
   map grobid_id (references sample_result) = [''b0'', ''b1'', ''b2''] \<and>
   map (\<lambda>b. get_default b ''xml:id'' []) (find_all ''biblStruct'' [] sample_doc) =
     ['''', ''b0'', ''fig_1'', ''b1'', ''b2'']"
proof -
  have ids: "map (\<lambda>b. get_default b ''xml:id'' []) (find_all ''biblStruct'' [] sample_doc) =
               ['''', ''b0'', ''fig_1'', ''b1'', ''b2'']"
    by code_simp
  from C2_accepted_iff_starts_with_b [OF sample_doc_parsed]
  have "map grobid_id (references sample_result) =
          filter (\<lambda>gid. startswith gid ''b'') ['''', ''b0'', ''fig_1'', ''b1'', ''b2'']"
    by (simp only: ids)
  then have "map grobid_id (references sample_result) = [''b0'', ''b1'', ''b2'']"
    by (simp add: startswith_def)
  with sample_doc_parsed ids show ?thesis by blast
qed

text \<open>
  C3: the year is absent when the \<^verbatim>\<open>when\<close> attribute of the published date is missing.
  The reference path tests the attribute and leaves the year absent; the main-paper path
  does not test it and stores the empty string. Both are seen on one document.
\<close>

theorem C3_main_year_empty_string:
  "parse_grobid_xml undated_doc =
     Inr \<lparr>main_paper = \<lparr>title = ''Unknown'', authors = [], year = Some [], doi = None,
                          arxiv = None, abstract = None\<rparr>,
          references = [\<lparr>title = ''No title'', authors = [], year = None, doi = None,
                          arxiv = None, venue = None, pages = None, volume = None,
                          grobid_id = ''b0'', paper_id = None, citation_count = None,
                          full_abstract = None\<rparr>]\<rparr>"
  by code_simp

text \<open>
  C4, as the specification states it: a person is in the author list if and only if the
  forename text or the surname text is non-empty after trimming. The parser tests the
  untrimmed texts: an author whose only name part is a forename of one space gives a
  person, whose full name is empty.
\<close>

theorem C4_blank_forename_included:
  "find ''persName'' [] blank_author = Some blank_persName \<and>
   strip (forename_text blank_persName) = [] \<and>
   strip (surname_text blank_persName) = [] \<and>
   parse_author blank_author = Some \<lparr>forename = '' '', surname = [], full_name = []\<rparr>"
  by code_simp

text \<open>
  C4, amended: \<^verbatim>\<open>parse_author\<close> returns a person if and only if the author element has
  a \<^verbatim>\<open>persName\<close> descendant and the forename text or the surname text of the first one is
  non-empty as it stands, nothing trimmed. The forename text is the texts of all
  \<^verbatim>\<open>forename\<close> descendants of that \<^verbatim>\<open>persName\<close> joined by single spaces, the surname text
  is the text of its first \<^verbatim>\<open>surname\<close> descendant. An author list holds, in order, the
  persons of exactly the author elements for which a person is returned.
\<close>

theorem C4_author_included_iff:
  "(parse_author a \<noteq> None) =
     (case find_all ''persName'' [] a of
        [] \<Rightarrow> False
      | p # _ \<Rightarrow> forename_text p \<noteq> [] \<or> surname_text p \<noteq> []) \<and>
   forename_text q = join '' '' (map text_of (find_all ''forename'' [] q)) \<and>
   surname_text q =
     (case find_all ''surname'' [] q of [] \<Rightarrow> [] | s # _ \<Rightarrow> text_of s) \<and>
   authors_loop es [] =
     map (the \<circ> parse_author) (filter (\<lambda>e. parse_author e \<noteq> None) es)"
proof (intro conjI)
  show "(parse_author a \<noteq> None) =
     (case find_all ''persName'' [] a of
        [] \<Rightarrow> False
      | p # _ \<Rightarrow> forename_text p \<noteq> [] \<or> surname_text p \<noteq> [])"
    by (simp add: parse_author_def find_first split: list.splits)
  show "forename_text q = join '' '' (map text_of (find_all ''forename'' [] q))"
    by (rule forename_text_join)
  show "surname_text q =
     (case find_all ''surname'' [] q of [] \<Rightarrow> [] | s # _ \<Rightarrow> text_of s)"
    by (simp add: surname_text_def find_first split: list.splits)
  show "authors_loop es [] =
     map (the \<circ> parse_author) (filter (\<lambda>e. parse_author e \<noteq> None) es)"
    by (simp add: authors_loop_eq List.map_filter_def)
qed

theorem C4_author_included_iff_witness:
  "find_all ''persName'' [] sample_author = [sample_persName] \<and>
   forename_text sample_persName = ''Ada B'' \<and>
   surname_text sample_persName = ''Lovelace'' \<and>
   parse_author sample_author \<noteq> None"
proof -
  have p: "find_all ''persName'' [] sample_author = [sample_persName]"
    by code_simp
  have f: "forename_text sample_persName = ''Ada B''"
    by code_simp
  have s: "surname_text sample_persName = ''Lovelace''"
    by code_simp
  from C4_author_included_iff [of sample_author sample_persName "[]"]
  have "(parse_author sample_author \<noteq> None) =
     (case find_all ''persName'' [] sample_author of
        [] \<Rightarrow> False
      | p # _ \<Rightarrow> forename_text p \<noteq> [] \<or> surname_text p \<noteq> [])"
    by (rule conjunct1)
  then have "parse_author sample_author \<noteq> None"
    by (simp add: p f)
  with p f s show ?thesis by blast
qed

text \<open>
  C5, as the specification states it: the title is never absent or empty. A main title
  element that holds only whitespace gives the empty title: the sentinel stands in for a
  missing element, not for an empty text.
\<close>

theorem C5_blank_title_empty:
  "parse_grobid_xml blank_title_doc =
     Inr \<lparr>main_paper = \<lparr>title = [], authors = [], year = None, doi = None,
                          arxiv = None, abstract = None\<rparr>,
          references = []\<rparr>"
  by code_simp

text \<open>
  C5, amended: the title is never absent, and it is empty only when the chosen title
  element has no text but whitespace. The main paper's title is the trimmed text of the
  first \<^verbatim>\<open>title\<close> element of the whole document with \<^verbatim>\<open>level="a"\<close> and \<^verbatim>\<open>type="main"\<close>, or
  \<open>Unknown\<close> when there is none. A reference's title is the trimmed text of the first
  \<^verbatim>\<open>title\<close> element of the entry with \<^verbatim>\<open>level="a"\<close> (whatever its type), else of the first
  with \<^verbatim>\<open>level="m"\<close>, else \<open>No title\<close>.
\<close>

theorem C5_titles:
  assumes "parse_grobid_xml soup = Inr r"
  shows "title (main_paper r) =
           (case find_all ''title'' [(''level'', ''a''), (''type'', ''main'')] soup of
              t # _ \<Rightarrow> strip (text_of t)
            | [] \<Rightarrow> ''Unknown'') \<and>
         list_all2
           (\<lambda>b ref. title ref =
              (case find_all ''title'' [(''level'', ''a'')] b of
                 t # _ \<Rightarrow> strip (text_of t)
               | [] \<Rightarrow>
                   (case find_all ''title'' [(''level'', ''m'')] b of
                      t # _ \<Rightarrow> strip (text_of t)
                    | [] \<Rightarrow> ''No title'')))
           (filter accepted (find_all ''biblStruct'' [] soup)) (references r)"
proof (rule conjI)
  have "title (main_paper r) = main_title soup"
    by (rule main_paper_fields [OF parse_grobid_xml_main [OF assms]])
  then show "title (main_paper r) =
           (case find_all ''title'' [(''level'', ''a''), (''type'', ''main'')] soup of
              t # _ \<Rightarrow> strip (text_of t)
            | [] \<Rightarrow> ''Unknown'')"
    by (simp add: main_title_def find_first split: list.splits)
next
  show "list_all2
           (\<lambda>b ref. title ref =
              (case find_all ''title'' [(''level'', ''a'')] b of
                 t # _ \<Rightarrow> strip (text_of t)
               | [] \<Rightarrow>
                   (case find_all ''title'' [(''level'', ''m'')] b of
                      t # _ \<Rightarrow> strip (text_of t)
                    | [] \<Rightarrow> ''No title'')))
           (filter accepted (find_all ''biblStruct'' [] soup)) (references r)"
  proof (rule references_field [OF assms])
    fix b gid ref
    assume "parse_reference b gid = Inr ref"
    then have "title ref = ref_title b"
      by (rule reference_fields)
    then show "title ref =
              (case find_all ''title'' [(''level'', ''a'')] b of
                 t # _ \<Rightarrow> strip (text_of t)
               | [] \<Rightarrow>
                   (case find_all ''title'' [(''level'', ''m'')] b of
                      t # _ \<Rightarrow> strip (text_of t)
                    | [] \<Rightarrow> ''No title''))"
      by (simp add: ref_title_def Let_def find_first split: list.splits)
  qed
qed

theorem C5_titles_witness:
  "parse_grobid_xml sample_doc = Inr sample_result \<and>
   title (main_paper sample_result) = ''Deep nets'' \<and>
   map title (references sample_result) = [''On numbers'', ''A book'', ''No title''] \<and>
   title (main_paper sample_result) =
     (case find_all ''title'' [(''level'', ''a''), (''type'', ''main'')] sample_doc of
        t # _ \<Rightarrow> strip (text_of t)
      | [] \<Rightarrow> ''Unknown'')"
proof -
  have "title (main_paper sample_result) = ''Deep nets''"
    by (simp add: sample_result_def)
  moreover have "map title (references sample_result) = [''On numbers'', ''A book'', ''No title'']"
    by (simp add: sample_result_def sample_ref0_def sample_ref1_def sample_ref2_def)
  moreover note sample_doc_parsed
    C5_titles [OF sample_doc_parsed, THEN conjunct1]
  ultimately show ?thesis by blast
qed

text \<open>
  C6, as the specification states it: the abstract is the text of the container with
  runs of whitespace collapsed to one space. The parser keeps the two spaces inside a
  text string.
\<close>

theorem C6_inner_spaces_kept:
  "find ''abstract'' [] spaced_abstract_doc = Some spaced_abstract \<and>
   spec_normalize_whitespace (text_of spaced_abstract) = ''Deep nets'' \<and>
   parse_grobid_xml spaced_abstract_doc =
     Inr \<lparr>main_paper = \<lparr>title = ''Unknown'', authors = [], year = None, doi = None,
                          arxiv = None, abstract = Some ''Deep  nets''\<rparr>,
          references = []\<rparr>"
  by code_simp

text \<open>
  C6, amended: the abstract is absent when the document has no \<^verbatim>\<open>abstract\<close> element;
  otherwise it is made from the text strings below the first one, in document order:
  each string is stripped of leading and trailing whitespace on its own, the strings that
  become empty are dropped, and the rest are concatenated with nothing between them.
  Whitespace inside a string is kept as it is.
\<close>

theorem C6_abstract_stripped_strings:
  assumes "parse_grobid_xml soup = Inr r"
  shows "abstract (main_paper r) =
           (case find_all ''abstract'' [] soup of
              [] \<Rightarrow> None
            | a # _ \<Rightarrow>
                Some (concat (filter (\<lambda>s. s \<noteq> [])
                  (map strip (all_strings False (descendants a))))))"
proof -
  have "abstract (main_paper r) = main_abstract soup"
    by (rule main_paper_fields [OF parse_grobid_xml_main [OF assms]])
  then show ?thesis
    by (simp add: main_abstract_def get_text_def all_strings_strip find_first
        split: list.splits)
qed

theorem C6_abstract_stripped_strings_witness:
  "parse_grobid_xml sample_doc = Inr sample_result \<and>
   abstract (main_paper sample_result) = Some ''We study  nets.They work.'' \<and>
   abstract (main_paper sample_result) =
     (case find_all ''abstract'' [] sample_doc of
        [] \<Rightarrow> None
      | a # _ \<Rightarrow>
          Some (concat (filter (\<lambda>s. s \<noteq> [])
            (map strip (all_strings False (descendants a))))))"
proof -
  have "abstract (main_paper sample_result) = Some ''We study  nets.They work.''"
    by (simp add: sample_result_def)
  with sample_doc_parsed C6_abstract_stripped_strings [OF sample_doc_parsed]
  show ?thesis by blast
qed

text \<open>
  C7: parsing a document tree always returns a result. Its references are, position by
  position, the records built from the accepted \<^verbatim>\<open>biblStruct\<close> elements, taken in
  document order; a document without any \<^verbatim>\<open>biblStruct\<close> gives the empty list of
  references, and no error.
\<close>

theorem C7_reference_order:
  "\<exists>r. parse_grobid_xml soup = Inr r \<and>
       list_all2 (\<lambda>b ref. parse_reference b (get_default b ''xml:id'' []) = Inr ref)
         (filter accepted (filter (matches ''biblStruct'' []) (descendants soup)))
         (references r) \<and>
       (find_all ''biblStruct'' [] soup = [] \<longrightarrow> references r = [])"
proof -
  obtain r where r: "parse_grobid_xml soup = Inr r"
    using parse_grobid_xml_total by blast
  have l: "list_all2 (\<lambda>b ref. parse_reference b (get_default b ''xml:id'' []) = Inr ref)
         (filter accepted (find_all ''biblStruct'' [] soup)) (references r)"
    by (rule parse_grobid_xml_references [OF r])
  then have "find_all ''biblStruct'' [] soup = [] \<longrightarrow> references r = []"
    by auto
  with r l show ?thesis
    unfolding find_all_def by blast
qed

theorem C7_reference_order_witness:
  "find_all ''biblStruct'' [] empty_doc = [] \<and>
   (\<exists>r. parse_grobid_xml empty_doc = Inr r \<and> references r = [])"
  using C7_reference_order [of empty_doc] empty_doc_no_biblStruct by auto


text \<open>
  C8: for a reference entry, let the page element be its first \<^verbatim>\<open>biblScope\<close> with
  \<^verbatim>\<open>unit="page"\<close>. When its \<^verbatim>\<open>from\<close> and \<^verbatim>\<open>to\<close> attributes are both there and non-empty,
  the pages field is the two joined by a hyphen; when only \<^verbatim>\<open>from\<close> is there and
  non-empty, it is \<^verbatim>\<open>from\<close>; when \<^verbatim>\<open>from\<close> is missing or empty the field is absent, also
  when \<^verbatim>\<open>to\<close> is there.
\<close>

theorem C8_pages:
  assumes "parse_reference b gid = Inr ref"
    and "find ''biblScope'' [(''unit'', ''page'')] b = Some p"
  shows "(get p ''from'' = Some f \<and> f \<noteq> [] \<and> get p ''to'' = Some t \<and> t \<noteq> []
            \<longrightarrow> pages ref = Some (f @ ''-'' @ t)) \<and>
         (get p ''from'' = Some f \<and> f \<noteq> [] \<and> get p ''to'' \<in> {None, Some []}
            \<longrightarrow> pages ref = Some f) \<and>
         (get p ''from'' \<in> {None, Some []} \<longrightarrow> pages ref = None)"
proof -
  have "pages ref = ref_pages b"
    using assms(1) by (rule reference_fields)
  then show ?thesis
    using assms(2) by (auto simp: ref_pages_def get_default_def Let_def split: option.splits)
qed

theorem C8_pages_witness:
  "parse_reference sample_b0 ''b0'' = Inr sample_ref0 \<and>
   find ''biblScope'' [(''unit'', ''page'')] sample_b0 = Some sample_page_both \<and>
   get sample_page_both ''from'' = Some ''100'' \<and>
   get sample_page_both ''to'' = Some ''110'' \<and>
   pages sample_ref0 = Some ''100-110'' \<and>
   parse_reference sample_b1 ''b1'' = Inr sample_ref1 \<and>
   find ''biblScope'' [(''unit'', ''page'')] sample_b1 = Some sample_page_from \<and>
   get sample_page_from ''from'' = Some ''7'' \<and>
   get sample_page_from ''to'' = None \<and>
   pages sample_ref1 = Some ''7'' \<and>
   parse_reference sample_b2 ''b2'' = Inr sample_ref2 \<and>
   find ''biblScope'' [(''unit'', ''page'')] sample_b2 = Some sample_page_to \<and>
   get sample_page_to ''from'' = None \<and>
   get sample_page_to ''to'' = Some ''9'' \<and>
   pages sample_ref2 = None"
proof -
  have g0: "get sample_page_both ''from'' = Some ''100''"
      "get sample_page_both ''to'' = Some ''110''"
    by (simp_all add: sample_page_both_def)
  have g1: "get sample_page_from ''from'' = Some ''7''"
      "get sample_page_from ''to'' = None"
    by (simp_all add: sample_page_from_def)
  have g2: "get sample_page_to ''from'' = None"
      "get sample_page_to ''to'' = Some ''9''"
    by (simp_all add: sample_page_to_def)
  have p0: "pages sample_ref0 = Some ''100-110''"
    using C8_pages [OF sample_b0_parsed sample_b0_page, of "''100''" "''110''"] g0
    by simp
  have p1: "pages sample_ref1 = Some ''7''"
    using C8_pages [OF sample_b1_parsed sample_b1_page, of "''7''" "[]"] g1
    by simp
  have p2: "pages sample_ref2 = None"
    using C8_pages [OF sample_b2_parsed sample_b2_page, of "[]" "[]"] g2
    by simp
  from g0 g1 g2 p0 p1 p2
    sample_b0_parsed sample_b0_page sample_b1_parsed sample_b1_page
    sample_b2_parsed sample_b2_page
  show ?thesis by blast
qed




text \<open>
  C10: for an author element without a \<^verbatim>\<open>persName\<close> descendant, \<^verbatim>\<open>parse_author\<close> returns
  no person (it has no error to raise), whatever else the element contains; and such an
  element adds nothing to an author list: the list built from any sequence of author
  elements is the list built from the sequence without it.
\<close>

theorem C10_no_persName_no_person:
  assumes "find ''persName'' [] author_elem = None"
  shows "parse_author author_elem = None \<and>
         authors_loop es acc = authors_loop (filter (\<lambda>e. e \<noteq> author_elem) es) acc"
proof -
  from assms have n: "parse_author author_elem = None"
    by (simp add: parse_author_def)
  then have "List.map_filter parse_author es =
               List.map_filter parse_author (filter (\<lambda>e. e \<noteq> author_elem) es)"
    by (rule map_filter_drop)
  with n show ?thesis
    by (simp add: authors_loop_eq)
qed

theorem C10_no_persName_no_person_witness:
  "find ''persName'' [] sample_email_author = None \<and>
   text_of sample_email_author = ''ada@example.org'' \<and>
   parse_author sample_email_author = None \<and>
   authors_loop [sample_author, sample_email_author] [] =
     authors_loop (filter (\<lambda>e. e \<noteq> sample_email_author) [sample_author, sample_email_author]) []"
proof -
  have "text_of sample_email_author = ''ada@example.org''"
    by code_simp
  with sample_email_author_persName
    C10_no_persName_no_person [OF sample_email_author_persName,
      of "[sample_author, sample_email_author]" "[]"]
  show ?thesis by blast
qed

end
